theory Spec2Isabelle
  imports Main
begin

section \<open>The sample build harness \<^verbatim>\<open>build-samples.sh\<close>\<close>

text \<open>
  The harness is a bash script that runs under \<^verbatim>\<open>set -e\<close>. It finds the
  sample directories, installs the root dependencies, builds every sample in a loop and
  prints a summary. The embedding follows the script line by line:

  \<^item> the outside world (the directory tree under \<^verbatim>\<open>samples\<close>, pathname
    expansion, and the exit statuses and output of \<^verbatim>\<open>npm\<close>,
    \<^verbatim>\<open>npx tsc\<close>, \<^verbatim>\<open>pushd\<close> and the inner \<^verbatim>\<open>find\<close>) is a record
    \<open>world\<close> that the script queries;
  \<^item> the shell variables and everything the script writes or runs are a record
    \<open>shell\<close>, passed from command to command;
  \<^item> a command that ends the script (\<^verbatim>\<open>exit\<close>, or a failing command under
    \<^verbatim>\<open>set -e\<close>) returns \<open>Inl (status, shell)\<close>; a command after which the
    script goes on returns \<open>Inr shell\<close>.
\<close>

subsection \<open>Text helpers of the shell tools\<close>

type_synonym status = nat

text \<open>The emoji of the script's messages are the bytes of their UTF-8 encoding.\<close>

abbreviation (input) emoji_magnifier :: string where
  "emoji_magnifier \<equiv> [CHR 0xF0, CHR 0x9F, CHR 0x94, CHR 0x8D]"
abbreviation (input) emoji_cross :: string where
  "emoji_cross \<equiv> [CHR 0xE2, CHR 0x9D, CHR 0x8C]"
abbreviation (input) emoji_clipboard :: string where
  "emoji_clipboard \<equiv> [CHR 0xF0, CHR 0x9F, CHR 0x93, CHR 0x8B]"
abbreviation (input) emoji_package :: string where
  "emoji_package \<equiv> [CHR 0xF0, CHR 0x9F, CHR 0x93, CHR 0xA6]"
abbreviation (input) emoji_hammer :: string where
  "emoji_hammer \<equiv> [CHR 0xF0, CHR 0x9F, CHR 0x94, CHR 0xA8]"
abbreviation (input) emoji_rocket :: string where
  "emoji_rocket \<equiv> [CHR 0xF0, CHR 0x9F, CHR 0x9A, CHR 0x80]"
abbreviation (input) emoji_memo :: string where
  "emoji_memo \<equiv> [CHR 0xF0, CHR 0x9F, CHR 0x93, CHR 0x9D]"
abbreviation (input) emoji_wrench :: string where
  "emoji_wrench \<equiv> [CHR 0xF0, CHR 0x9F, CHR 0x94, CHR 0xA7]"
abbreviation (input) emoji_info :: string where
  "emoji_info \<equiv> [CHR 0xE2, CHR 0x84, CHR 0xB9, CHR 0xEF, CHR 0xB8, CHR 0x8F]"
abbreviation (input) emoji_check :: string where
  "emoji_check \<equiv> [CHR 0xE2, CHR 0x9C, CHR 0x85]"
abbreviation (input) emoji_chart :: string where
  "emoji_chart \<equiv> [CHR 0xF0, CHR 0x9F, CHR 0x93, CHR 0x8A]"
abbreviation (input) emoji_warning :: string where
  "emoji_warning \<equiv> [CHR 0xE2, CHR 0x9A, CHR 0xA0, CHR 0xEF, CHR 0xB8, CHR 0x8F]"
abbreviation (input) emoji_party :: string where
  "emoji_party \<equiv> [CHR 0xF0, CHR 0x9F, CHR 0x8E, CHR 0x89]"

text \<open>
  \<open>glob pat s\<close>: the shell pattern \<open>pat\<close> matches the whole of \<open>s\<close>. Only the
  features the script's patterns use are modelled: \<^verbatim>\<open>*\<close> matches any string
  (also one with \<^verbatim>\<open>/\<close> in it, as in \<^verbatim>\<open>find -name\<close> and
  \<^verbatim>\<open>find -path\<close>), every other character matches itself.
\<close>

fun glob :: "string \<Rightarrow> string \<Rightarrow> bool" where
  "glob [] s = (s = [])"
| "glob (p # ps) [] = (p = CHR ''*'' \<and> glob ps [])"
| "glob (p # ps) (c # cs) =
     (if p = CHR ''*'' then glob ps (c # cs) \<or> glob (p # ps) cs
      else p = c \<and> glob ps cs)"

text \<open>
  \<open>regex_prefix re s\<close>: the regular expression \<open>re\<close> matches a prefix of \<open>s\<close>; the
  result is what follows the match. Only literal characters and \<^verbatim>\<open>.\<close> (any
  one character) are modelled, which is all that \<^verbatim>\<open>/package.json\<close> has.
\<close>

fun regex_prefix :: "string \<Rightarrow> string \<Rightarrow> string option" where
  "regex_prefix [] s = Some s"
| "regex_prefix (r # rs) [] = None"
| "regex_prefix (r # rs) (c # cs) =
     (if r = CHR ''.'' \<or> r = c then regex_prefix rs cs else None)"

text \<open>
  \<open>sed_s re l\<close> is \<^verbatim>\<open>sed 's|re||'\<close> on one line: the leftmost match of
  \<open>re\<close> is deleted, once (there is no \<^verbatim>\<open>g\<close> flag and no anchor).
\<close>

fun sed_s :: "string \<Rightarrow> string \<Rightarrow> string" where
  "sed_s re [] = (case regex_prefix re [] of Some rest \<Rightarrow> rest | None \<Rightarrow> [])"
| "sed_s re (c # cs) =
     (case regex_prefix re (c # cs) of Some rest \<Rightarrow> rest | None \<Rightarrow> c # sed_s re cs)"

text \<open>A tool writes each line followed by a newline; a reader splits at the newlines.\<close>

definition unlines :: "string list \<Rightarrow> string" where
  "unlines ls = concat (map (\<lambda>l. l @ [CHR 0x0A]) ls)"

fun lines_acc :: "string \<Rightarrow> string \<Rightarrow> string list" where
  "lines_acc l [] = (if l = [] then [] else [l])"
| "lines_acc l (c # cs) =
     (if c = CHR 0x0A then l # lines_acc [] cs else lines_acc (l @ [c]) cs)"

definition lines_of :: "string \<Rightarrow> string list" where
  "lines_of s = lines_acc [] s"

text \<open>
  Word splitting of an unquoted \<^verbatim>\<open>$(...)\<close>: the default \<^verbatim>\<open>IFS\<close> is
  space, tab and newline; runs of them separate the words and none of them is kept.
\<close>

definition ifs :: "char \<Rightarrow> bool" where
  "ifs c = (c = CHR '' '' \<or> c = CHR 0x09 \<or> c = CHR 0x0A)"

fun split_acc :: "string \<Rightarrow> string \<Rightarrow> string list" where
  "split_acc w [] = (if w = [] then [] else [w])"
| "split_acc w (c # cs) =
     (if ifs c then (if w = [] then split_acc [] cs else w # split_acc [] cs)
      else split_acc (w @ [c]) cs)"

definition word_split :: "string \<Rightarrow> string list" where
  "word_split s = split_acc [] s"

text \<open>
  \<^verbatim>\<open>grep -q build\<close> and \<^verbatim>\<open>grep -q .\<close>: status 0 when some line has the
  fixed string in it (or has a character at all), status 1 otherwise.
\<close>

fun starts_with :: "string \<Rightarrow> string \<Rightarrow> bool" where
  "starts_with [] s = True"
| "starts_with (p # ps) [] = False"
| "starts_with (p # ps) (c # cs) = (p = c \<and> starts_with ps cs)"

fun contains :: "string \<Rightarrow> string \<Rightarrow> bool" where
  "contains p [] = starts_with p []"
| "contains p (c # cs) = (starts_with p (c # cs) \<or> contains p cs)"

definition grep_q :: "string \<Rightarrow> string list \<Rightarrow> status" where
  "grep_q p ls = (if list_ex (contains p) ls then 0 else 1)"

definition grep_q_any :: "string list \<Rightarrow> status" where
  "grep_q_any ls = (if list_ex (\<lambda>l. l \<noteq> []) ls then 0 else 1)"

text \<open>Decimal rendering of a shell integer, as \<^verbatim>\<open>$total_samples\<close> expands.\<close>

definition digit :: "nat \<Rightarrow> char" where
  "digit n = ''0123456789'' ! n"

fun decimal :: "nat \<Rightarrow> string" where
  "decimal n = (if n < 10 then [digit n] else decimal (n div 10) @ [digit (n mod 10)])"

declare decimal.simps [simp del]

subsection \<open>The directory tree and discovery\<close>

text \<open>
  A directory lists its entries in the order \<^verbatim>\<open>readdir\<close> returns them, which
  is the order \<^verbatim>\<open>find\<close> visits them in. \<open>Other\<close> is anything that is neither
  a regular file nor a directory (a symbolic link, a socket).
\<close>

datatype node = File | Other | Dir "entry list"
  and entry = Entry string node

text \<open>
  \<open>walk p b n\<close> lists what \<^verbatim>\<open>find\<close> visits from the node \<open>n\<close> of path \<open>p\<close>
  and base name \<open>b\<close>, parents first.
\<close>

fun walk :: "string \<Rightarrow> string \<Rightarrow> node \<Rightarrow> (string \<times> string \<times> node) list"
  and walk_entries :: "string \<Rightarrow> entry list \<Rightarrow> (string \<times> string \<times> node) list" where
  "walk p b File = [(p, b, File)]"
| "walk p b Other = [(p, b, Other)]"
| "walk p b (Dir es) = (p, b, Dir es) # walk_entries p es"
| "walk_entries p [] = []"
| "walk_entries p (Entry n c # es) = walk (p @ ''/'' @ n) n c @ walk_entries p es"

definition is_file :: "node \<Rightarrow> bool" where
  "is_file n = (case n of File \<Rightarrow> True | _ \<Rightarrow> False)"

text \<open>
  \<^verbatim>\<open>find samples -name "package.json" -not -path "*/node_modules/*" -type f\<close>.
  When \<^verbatim>\<open>samples\<close> does not exist \<^verbatim>\<open>find\<close> prints nothing on its standard
  output; its failure is lost in the pipeline, whose status is that of \<^verbatim>\<open>sed\<close>.
\<close>

definition manifest_test :: "string \<times> string \<times> node \<Rightarrow> bool" where
  "manifest_test v = (case v of (p, b, n) \<Rightarrow>
     glob ''package.json'' b \<and> \<not> glob ''*/node_modules/*'' p \<and> is_file n)"

definition find_manifests :: "node option \<Rightarrow> string list" where
  "find_manifests root = (case root of
       None \<Rightarrow> []
     | Some n \<Rightarrow> map fst (filter manifest_test (walk ''samples'' ''samples'' n)))"

text \<open>
  Pathname expansion of one word of an unquoted expansion: a word with one of
  \<^verbatim>\<open>* ? [\<close> in it is replaced by the existing paths it matches, and left as it is
  when it matches none. Which paths match is asked of the world (\<open>matches cwd word\<close>).
\<close>

definition has_glob :: "string \<Rightarrow> bool" where
  "has_glob w = list_ex (\<lambda>c. c = CHR ''*'' \<or> c = CHR ''?'' \<or> c = CHR ''['') w"

definition expand_word :: "(string \<Rightarrow> string list) \<Rightarrow> string \<Rightarrow> string list" where
  "expand_word matches w =
     (if has_glob w then (case matches w of [] \<Rightarrow> [w] | m # ms \<Rightarrow> m # ms) else [w])"

definition unquoted :: "(string \<Rightarrow> string list) \<Rightarrow> string \<Rightarrow> string list" where
  "unquoted matches out = concat (map (expand_word matches) (word_split out))"

subsection \<open>The world and the shell\<close>

text \<open>
  What the script asks of its environment. Paths are relative to the directory the script
  is started in, written \<^verbatim>\<open>.\<close>; a sample's commands run in the sample's directory.
  An exit status is a number from 0 to 255, and 0 alone means success.
\<close>

record world =
  tree :: "node option"
    \<comment> \<open>the directory \<^verbatim>\<open>samples\<close>, if there is one\<close>
  matches :: "string \<Rightarrow> string \<Rightarrow> string list"
    \<comment> \<open>directory, pattern: the existing paths a glob pattern matches\<close>
  root_npm_ci :: status
    \<comment> \<open>\<^verbatim>\<open>npm ci\<close> at the root\<close>
  pushd :: "string \<Rightarrow> status"
    \<comment> \<open>\<^verbatim>\<open>pushd "$sample"\<close>\<close>
  npm_ci :: "string \<Rightarrow> status"
    \<comment> \<open>\<^verbatim>\<open>npm ci\<close> in a sample\<close>
  scripts :: "string \<Rightarrow> string list"
    \<comment> \<open>the names of the scripts that the sample's \<^verbatim>\<open>package.json\<close> declares\<close>
  npm_run :: "string \<Rightarrow> string list"
    \<comment> \<open>the lines \<^verbatim>\<open>npm run\<close> prints\<close>
  npm_run_build :: "string \<Rightarrow> status"
    \<comment> \<open>\<^verbatim>\<open>npm run build\<close>\<close>
  tsconfig :: "string \<Rightarrow> bool"
    \<comment> \<open>\<^verbatim>\<open>[ -f "tsconfig.json" ]\<close>\<close>
  tsc_project :: "string \<Rightarrow> status"
    \<comment> \<open>\<^verbatim>\<open>npx tsc --noEmit\<close>\<close>
  find_ts :: "string \<Rightarrow> string list"
    \<comment> \<open>the lines of \<^verbatim>\<open>find . -name "*.ts" -not -path "./node_modules/*"\<close>\<close>
  tsc_files :: "string \<Rightarrow> string list \<Rightarrow> status"
    \<comment> \<open>\<^verbatim>\<open>npx tsc --noEmit --skipLibCheck\<close> on the given files\<close>

datatype command =
    Npm_ci
  | Npm_run
  | Npm_run_build
  | Npx_tsc_noEmit
  | Npx_tsc_files "string list"

text \<open>
  The trace of a run, in order: every line the script itself writes to its standard
  output, and every \<^verbatim>\<open>npm\<close> or \<^verbatim>\<open>npx\<close> process it starts, with the directory
  it starts it in.
\<close>

datatype event = Echo string | Invoke string command

record shell =
  samples :: "string list"
  results :: "string \<rightharpoonup> string"
  total_samples :: nat
  successful :: nat
  failed :: nat
  trace :: "event list"

definition say :: "string list \<Rightarrow> shell \<Rightarrow> shell" where
  "say ls st = st\<lparr>trace := trace st @ map Echo ls\<rparr>"

definition log :: "event list \<Rightarrow> shell \<Rightarrow> shell" where
  "log evs st = st\<lparr>trace := trace st @ evs\<rparr>"

text \<open>
  \<^verbatim>\<open>((x++))\<close>: the variable becomes \<open>x + 1\<close>, and the value of the expression
  is the old \<open>x\<close>. Of the status of \<^verbatim>\<open>(( expression ))\<close> bash's own help says:
  \<^verbatim>\<open>Returns 1 if EXPRESSION evaluates to 0; returns 0 otherwise.\<close> So the increment of
  a counter that is 0 is a command with status 1, and of \<^verbatim>\<open>set -e\<close> the help says:
  \<^verbatim>\<open>Exit immediately if a command exits with a non-zero status.\<close> The exceptions are
  the commands of a test (of \<^verbatim>\<open>if\<close>, \<^verbatim>\<open>while\<close>, \<^verbatim>\<open>&&\<close>,
  \<^verbatim>\<open>||\<close>, \<^verbatim>\<open>!\<close>) and of a pipeline but its last; the increments of lines 61
  and 65 are in the branches of the \<^verbatim>\<open>if\<close>, not in its test.
  (Shell integers have 64 bits; a counter of samples stays far below.)
\<close>

definition post_increment :: "nat \<Rightarrow> nat \<times> status" where
  "post_increment x = (x + 1, if x = 0 then 1 else 0)"

subsection \<open>Discovery (line 11)\<close>

text \<open>
  \<^verbatim>\<open>samples=($(find ... | sed 's|/package.json||'))\<close>: the substitution is not
  quoted, so its output is split into words and each word undergoes pathname expansion.
\<close>

definition discover :: "world \<Rightarrow> string list" where
  "discover w =
     unquoted (matches w ''.'')
       (unlines (map (sed_s ''/package.json'') (lines_of (unlines (find_manifests (tree w))))))"

text \<open>
  The directory of a manifest path, and the manifest paths on which word splitting,
  pathname expansion and the pattern of \<^verbatim>\<open>sed\<close> do no harm: no white space
  and no \<^verbatim>\<open>* ? [\<close> in the path, and no directory on it whose name starts with
  \<^verbatim>\<open>package\<close>.
\<close>

definition manifest_dir :: "string \<Rightarrow> string" where
  "manifest_dir p = take (length p - length ''/package.json'') p"

definition plain_char :: "char \<Rightarrow> bool" where
  "plain_char c = (\<not> ifs c \<and> c \<noteq> CHR ''*'' \<and> c \<noteq> CHR ''?'' \<and> c \<noteq> CHR ''['')"

definition plain_path :: "string \<Rightarrow> bool" where
  "plain_path p = (list_all plain_char p \<and> \<not> contains ''/package'' (manifest_dir p))"

subsection \<open>One sample (lines 37 to 69)\<close>

text \<open>
  The manifest's side of line 44. A sample declares a build command when its
  \<^verbatim>\<open>package.json\<close> has a script named \<^verbatim>\<open>build\<close>. \<^verbatim>\<open>npm run\<close> lists
  the scripts of the manifest, each by its name, among other lines (a heading with the
  name and version of the package, the command of each script). The script does not
  read the manifest: it looks for the string \<^verbatim>\<open>build\<close> in that listing, and
  finds it also where no script is named \<^verbatim>\<open>build\<close> (\<open>stray_build\<close>).
\<close>

definition declares_build :: "world \<Rightarrow> string \<Rightarrow> bool" where
  "declares_build w d = (''build'' \<in> set (scripts w d))"

definition lists_scripts :: "world \<Rightarrow> string \<Rightarrow> bool" where
  "lists_scripts w d = list_all (\<lambda>s. list_ex (contains s) (npm_run w d)) (scripts w d)"

definition stray_build :: "world \<Rightarrow> string \<Rightarrow> bool" where
  "stray_build w d = (grep_q ''build'' (npm_run w d) = 0 \<and> \<not> declares_build w d)"

text \<open>
  The braces of lines 43 to 58: which check runs, and the status it leaves. The status of
  an \<^verbatim>\<open>if\<close> command is that of the last command of the branch taken.
\<close>

definition strategy_chain :: "world \<Rightarrow> string \<Rightarrow> status \<times> event list" where
  "strategy_chain w d =
     (if grep_q ''build'' (npm_run w d) = 0 then
        (npm_run_build w d,
         [Invoke d Npm_run,
          Echo (''  '' @ emoji_memo @ '' Running npm run build''),
          Invoke d Npm_run_build])
      else if tsconfig w d then
        (tsc_project w d,
         [Invoke d Npm_run,
          Echo (''  '' @ emoji_wrench @ '' Running TypeScript compiler''),
          Invoke d Npx_tsc_noEmit])
      else if grep_q_any (take 1 (find_ts w d)) = 0 then
        (let files = unquoted (matches w d) (unlines (find_ts w d)) in
         (tsc_files w d files,
          [Invoke d Npm_run,
           Echo (''  '' @ emoji_magnifier @ '' Checking TypeScript syntax''),
           Invoke d (Npx_tsc_files files)]))
      else
        (0,
         [Invoke d Npm_run,
          Echo (''  '' @ emoji_magnifier @ '' Checking TypeScript syntax''),
          Echo (''  '' @ emoji_info @ '' No TypeScript files found'')]))"

text \<open>
  The condition of line 43, \<^verbatim>\<open>npm ci && { ... }\<close>. It is the test of an
  \<^verbatim>\<open>if\<close>, where \<^verbatim>\<open>set -e\<close> has no effect.
\<close>

definition attempt :: "world \<Rightarrow> string \<Rightarrow> status \<times> event list" where
  "attempt w d =
     (if npm_ci w d = 0 then
        (case strategy_chain w d of (rc, evs) \<Rightarrow> (rc, Invoke d Npm_ci # evs))
      else (npm_ci w d, [Invoke d Npm_ci]))"

text \<open>
  The body of the loop. \<^verbatim>\<open>pushd\<close> and the two counter increments are plain
  commands, so under \<^verbatim>\<open>set -e\<close> the script ends with their status when it is
  not 0.
\<close>

definition build_sample :: "world \<Rightarrow> string \<Rightarrow> shell \<Rightarrow> (status \<times> shell) + shell" where
  "build_sample w d st =
     (let st1 = say [emoji_rocket @ '' Building: '' @ d,
                     ''----------------------------------------''] st
      in if pushd w d \<noteq> 0 then Inl (pushd w d, st1)
      else case attempt w d of (rc, evs) \<Rightarrow>
        let st2 = log evs st1
        in if rc = 0 then
             (let st3 = say [''  '' @ emoji_check @ '' SUCCESS''] st2;
                  st4 = st3\<lparr>results := (results st3)(d \<mapsto> ''success'')\<rparr>
              in case post_increment (successful st4) of (v, rc') \<Rightarrow>
                let st5 = st4\<lparr>successful := v\<rparr>
                in if rc' \<noteq> 0 then Inl (rc', st5) else Inr (say [[]] st5))
           else
             (let st3 = say [''  '' @ emoji_cross @ '' FAILED''] st2;
                  st4 = st3\<lparr>results := (results st3)(d \<mapsto> ''failed'')\<rparr>
              in case post_increment (failed st4) of (v, rc') \<Rightarrow>
                let st5 = st4\<lparr>failed := v\<rparr>
                in if rc' \<noteq> 0 then Inl (rc', st5) else Inr (say [[]] st5)))"

text \<open>The loop of lines 36 to 70, over the samples still to build.\<close>

fun build_loop :: "world \<Rightarrow> string list \<Rightarrow> shell \<Rightarrow> (status \<times> shell) + shell" where
  "build_loop w [] st = Inr st"
| "build_loop w (d # ds) st =
     (case build_sample w d st of
        Inl stop \<Rightarrow> Inl stop
      | Inr st' \<Rightarrow> build_loop w ds st')"

subsection \<open>The summary (lines 72 to 98)\<close>

text \<open>
  A sample without an entry in \<^verbatim>\<open>results\<close> expands to the empty string, which is
  not \<^verbatim>\<open>success\<close>.
\<close>

fun detailed_results :: "(string \<rightharpoonup> string) \<Rightarrow> string list \<Rightarrow> string list" where
  "detailed_results r [] = []"
| "detailed_results r (d # ds) =
     (if r d = Some ''success'' then ''  '' @ emoji_check @ '' '' @ d
      else ''  '' @ emoji_cross @ '' '' @ d) # detailed_results r ds"

definition report :: "shell \<Rightarrow> status \<times> shell" where
  "report st =
     (let st1 = say ([''========================================'',
                      emoji_chart @ '' BUILD SUMMARY'',
                      ''========================================'',
                      ''Total samples: '' @ decimal (total_samples st),
                      ''Successful: '' @ emoji_check @ '' '' @ decimal (successful st),
                      ''Failed: '' @ emoji_cross @ '' '' @ decimal (failed st),
                      [],
                      emoji_memo @ '' Detailed Results:'']
                     @ detailed_results (results st) (samples st)
                     @ [[]]) st
      in if failed st > 0 then (1, say [emoji_warning @ '' Some builds failed!''] st1)
         else (0, say [emoji_party @ '' All builds successful!''] st1))"

subsection \<open>The script\<close>

text \<open>The lines the script prints between discovery and the root installation.\<close>

definition found_banner :: "string list \<Rightarrow> string list" where
  "found_banner ds =
     [emoji_clipboard @ '' Found '' @ decimal (length ds) @ '' samples:'']
     @ map (\<lambda>d. ''  - '' @ d) ds
     @ [[], emoji_package @ '' Installing root dependencies...'']"

definition build_samples :: "world \<Rightarrow> status \<times> shell" where
  "build_samples w =
     (let st0 = \<lparr>samples = discover w, results = Map.empty, total_samples = 0,
                 successful = 0, failed = 0,
                 trace = [Echo (emoji_magnifier @ '' Discovering samples...'')]\<rparr>
      in if length (samples st0) = 0 then (1, say [emoji_cross @ '' No samples found!''] st0)
      else
        let st1 = log [Invoke ''.'' Npm_ci] (say (found_banner (samples st0)) st0)
        in if root_npm_ci w \<noteq> 0 then (root_npm_ci w, st1)
        else
          let st2 = say [emoji_hammer @ '' Building samples...'', []]
                      (st1\<lparr>results := Map.empty, total_samples := length (samples st1),
                           successful := 0, failed := 0\<rparr>)
          in case build_loop w (samples st2) st2 of
               Inl stop \<Rightarrow> stop
             | Inr st3 \<Rightarrow> report st3)"

text \<open>The state the script is in when a command has run, whether it went on or ended.\<close>

definition last_shell :: "(status \<times> shell) + shell \<Rightarrow> shell" where
  "last_shell r = (case r of Inl (rc, st) \<Rightarrow> st | Inr st \<Rightarrow> st)"

text \<open>The processes of a trace, without the lines written in between.\<close>

fun commands :: "event list \<Rightarrow> command list" where
  "commands [] = []"
| "commands (Echo l # evs) = commands evs"
| "commands (Invoke d c # evs) = c # commands evs"

subsection \<open>Example worlds\<close>

text \<open>
  Directory trees with one, two and three samples, and one whose sample directory has a
  space in its name.
\<close>

definition sample_dir :: node where
  "sample_dir = Dir [Entry ''package.json'' File]"

definition one_sample :: node where
  "one_sample = Dir [Entry ''a'' sample_dir]"

definition two_samples :: node where
  "two_samples = Dir [Entry ''a'' sample_dir, Entry ''b'' sample_dir]"


definition spaced_sample :: node where
  "spaced_sample = Dir [Entry ''my app'' sample_dir]"

text \<open>
  The world in which every sample is bare: no script, no \<^verbatim>\<open>tsconfig.json\<close>, no
  TypeScript file, and every command succeeds.
\<close>

definition bare_world :: "node option \<Rightarrow> world" where
  "bare_world t =
     \<lparr>tree = t, matches = (\<lambda>cwd pat. []), root_npm_ci = 0, pushd = (\<lambda>d. 0),
      npm_ci = (\<lambda>d. 0), scripts = (\<lambda>d. []), npm_run = (\<lambda>d. []),
      npm_run_build = (\<lambda>d. 0),
      tsconfig = (\<lambda>d. False), tsc_project = (\<lambda>d. 0), find_ts = (\<lambda>d. []),
      tsc_files = (\<lambda>d fs. 0)\<rparr>"

text \<open>What \<^verbatim>\<open>npm run\<close> prints for a manifest whose only script is \<^verbatim>\<open>build\<close>.\<close>

definition build_listing :: "string list" where
  "build_listing =
     [''Scripts available in sample@1.0.0 via `npm run-script`:'', ''  build'', ''    tsc'']"

text \<open>Two samples; the installation of the first one fails.\<close>

definition first_install_fails :: world where
  "first_install_fails =
     (bare_world (Some two_samples))
       \<lparr>npm_ci := (\<lambda>d. if d = ''samples/a'' then 1 else 0)\<rparr>"

text \<open>One bare sample, no sample directory at all.\<close>

definition one_pass :: world where
  "one_pass = bare_world (Some one_sample)"

definition no_samples :: world where
  "no_samples = bare_world None"


text \<open>
  One sample with a \<^verbatim>\<open>build\<close> script that would pass and a
  \<^verbatim>\<open>tsconfig.json\<close>; its installation fails.
\<close>

definition build_and_tsconfig_install_fails :: world where
  "build_and_tsconfig_install_fails =
     (bare_world (Some one_sample))
       \<lparr>npm_ci := (\<lambda>d. 1), scripts := (\<lambda>d. [''build'']),
        npm_run := (\<lambda>d. build_listing), tsconfig := (\<lambda>d. True)\<rparr>"

text \<open>
  One sample with a \<^verbatim>\<open>build\<close> script and a \<^verbatim>\<open>tsconfig.json\<close>; the
  build fails with status 2 and the type check would pass.
\<close>

definition build_and_tsconfig :: world where
  "build_and_tsconfig =
     (bare_world (Some one_sample))
       \<lparr>scripts := (\<lambda>d. [''build'']), npm_run := (\<lambda>d. build_listing),
        npm_run_build := (\<lambda>d. 2), tsconfig := (\<lambda>d. True)\<rparr>"

text \<open>
  What \<^verbatim>\<open>npm run\<close> prints for the package \<^verbatim>\<open>rebuild-kit\<close>, whose only
  script is \<^verbatim>\<open>test\<close>: the name of the package has \<^verbatim>\<open>build\<close> in it.
\<close>

definition rebuild_kit_listing :: "string list" where
  "rebuild_kit_listing =
     [''Lifecycle scripts included in rebuild-kit@1.0.0:'', ''  test'', ''    echo ok'']"

text \<open>
  One sample, the package \<^verbatim>\<open>rebuild-kit\<close>, without a \<^verbatim>\<open>build\<close> script:
  \<^verbatim>\<open>npm run build\<close> fails with status 1 for want of the script. Once with a
  \<^verbatim>\<open>tsconfig.json\<close> that passes the type check, once with nothing to check.
\<close>

definition rebuild_kit_tsconfig :: world where
  "rebuild_kit_tsconfig =
     (bare_world (Some one_sample))
       \<lparr>scripts := (\<lambda>d. [''test'']), npm_run := (\<lambda>d. rebuild_kit_listing),
        npm_run_build := (\<lambda>d. 1), tsconfig := (\<lambda>d. True)\<rparr>"

definition rebuild_kit_bare :: world where
  "rebuild_kit_bare =
     (bare_world (Some one_sample))
       \<lparr>scripts := (\<lambda>d. [''test'']), npm_run := (\<lambda>d. rebuild_kit_listing),
        npm_run_build := (\<lambda>d. 1)\<rparr>"

text \<open>One bare sample whose installation fails.\<close>

definition bare_install_fails :: world where
  "bare_install_fails = (bare_world (Some one_sample))\<lparr>npm_ci := (\<lambda>d. 1)\<rparr>"

text \<open>One sample, the root installation fails with status 1.\<close>

definition root_install_fails :: world where
  "root_install_fails = (bare_world (Some one_sample))\<lparr>root_npm_ci := 1\<rparr>"

text \<open>One sample in a directory named \<^verbatim>\<open>my app\<close>.\<close>

definition spaced_world :: world where
  "spaced_world = bare_world (Some spaced_sample)"

text \<open>The state of the shell before the first command.\<close>

definition fresh :: shell where
  "fresh = \<lparr>samples = [], results = Map.empty, total_samples = 0, successful = 0,
            failed = 0, trace = []\<rparr>"

text \<open>The state at line 36, when the loop starts.\<close>

definition loop_entry :: "world \<Rightarrow> shell" where
  "loop_entry w =
     \<lparr>samples = discover w, results = Map.empty, total_samples = length (discover w),
      successful = 0, failed = 0,
      trace = Echo (emoji_magnifier @ '' Discovering samples...'')
              # map Echo (found_banner (discover w))
              @ [Invoke ''.'' Npm_ci, Echo (emoji_hammer @ '' Building samples...''), Echo []]\<rparr>"


section \<open>Properties\<close>

subsection \<open>Discovery\<close>

text \<open>
  The two patterns of \<^verbatim>\<open>find\<close> in plain terms: the name is
  \<^verbatim>\<open>package.json\<close>, and \<^verbatim>\<open>/node_modules/\<close> occurs nowhere in the path.
\<close>

lemma glob_literal: "CHR ''*'' \<notin> set p \<Longrightarrow> glob p s = (s = p)"
  by (induction p s rule: glob.induct) auto

lemma glob_star: "glob (CHR ''*'' # p) s = (\<exists>k\<le>length s. glob p (drop k s))"
proof (induction s)
  case Nil
  then show ?case by simp
next
  case (Cons c cs)
  have "(\<exists>k\<le>length (c # cs). glob p (drop k (c # cs)))
        = (glob p (c # cs) \<or> (\<exists>k\<le>length cs. glob p (drop k cs)))"
  proof
    assume "\<exists>k\<le>length (c # cs). glob p (drop k (c # cs))"
    then obtain k where k: "k \<le> length (c # cs)" "glob p (drop k (c # cs))" by blast
    show "glob p (c # cs) \<or> (\<exists>k\<le>length cs. glob p (drop k cs))"
    proof (cases k)
      case 0
      with k show ?thesis by simp
    next
      case (Suc j)
      with k show ?thesis by auto
    qed
  next
    assume "glob p (c # cs) \<or> (\<exists>k\<le>length cs. glob p (drop k cs))"
    then show "\<exists>k\<le>length (c # cs). glob p (drop k (c # cs))"
    proof
      assume "glob p (c # cs)"
      then have "0 \<le> length (c # cs) \<and> glob p (drop 0 (c # cs))" by simp
      then show ?thesis by blast
    next
      assume "\<exists>k\<le>length cs. glob p (drop k cs)"
      then obtain k where "k \<le> length cs" "glob p (drop k cs)" by blast
      then have "Suc k \<le> length (c # cs) \<and> glob p (drop (Suc k) (c # cs))" by simp
      then show ?thesis by blast
    qed
  qed
  with Cons show ?case by simp
qed

lemma glob_prefix_star:
  "CHR ''*'' \<notin> set q \<Longrightarrow> glob (q @ ''*'') s = starts_with q s"
proof (induction q s rule: starts_with.induct)
  case (1 s)
  show ?case by (induction s) auto
next
  case (2 p ps)
  then show ?case by auto
next
  case (3 p ps c cs)
  then show ?case by auto
qed

lemma contains_drop: "contains q s = (\<exists>k\<le>length s. starts_with q (drop k s))"
proof (induction s)
  case Nil
  then show ?case by simp
next
  case (Cons c cs)
  have "(\<exists>k\<le>length (c # cs). starts_with q (drop k (c # cs)))
        = (starts_with q (c # cs) \<or> (\<exists>k\<le>length cs. starts_with q (drop k cs)))"
  proof
    assume "\<exists>k\<le>length (c # cs). starts_with q (drop k (c # cs))"
    then obtain k where k: "k \<le> length (c # cs)" "starts_with q (drop k (c # cs))" by blast
    show "starts_with q (c # cs) \<or> (\<exists>k\<le>length cs. starts_with q (drop k cs))"
    proof (cases k)
      case 0
      with k show ?thesis by simp
    next
      case (Suc j)
      with k show ?thesis by auto
    qed
  next
    assume "starts_with q (c # cs) \<or> (\<exists>k\<le>length cs. starts_with q (drop k cs))"
    then show "\<exists>k\<le>length (c # cs). starts_with q (drop k (c # cs))"
    proof
      assume "starts_with q (c # cs)"
      then have "0 \<le> length (c # cs) \<and> starts_with q (drop 0 (c # cs))" by simp
      then show ?thesis by blast
    next
      assume "\<exists>k\<le>length cs. starts_with q (drop k cs)"
      then obtain k where "k \<le> length cs" "starts_with q (drop k cs)" by blast
      then have "Suc k \<le> length (c # cs) \<and> starts_with q (drop (Suc k) (c # cs))" by simp
      then show ?thesis by blast
    qed
  qed
  with Cons show ?case by simp
qed

lemma glob_infix:
  "CHR ''*'' \<notin> set q \<Longrightarrow> glob (CHR ''*'' # q @ ''*'') s = contains q s"
  by (simp add: glob_star glob_prefix_star contains_drop)

lemma manifest_test_plain:
  "manifest_test (p, b, n) =
     (b = ''package.json'' \<and> \<not> contains ''/node_modules/'' p \<and> n = File)"
proof -
  have "glob ''package.json'' b = (b = ''package.json'')"
    by (rule glob_literal) simp
  moreover have "glob ''*/node_modules/*'' p = contains ''/node_modules/'' p"
    using glob_infix [of "''/node_modules/''" p] by simp
  moreover have "is_file n = (n = File)"
    by (cases n) (simp_all add: is_file_def)
  ultimately show ?thesis by (simp add: manifest_test_def)
qed

text \<open>Lines written and read back; words of plain lines; the pattern of \<^verbatim>\<open>sed\<close>.\<close>

lemma lines_acc_line:
  "CHR 0x0A \<notin> set l \<Longrightarrow> lines_acc a (l @ CHR 0x0A # rest) = (a @ l) # lines_acc [] rest"
  by (induction l arbitrary: a) auto

lemma lines_of_unlines:
  "\<forall>l\<in>set ls. CHR 0x0A \<notin> set l \<Longrightarrow> lines_of (unlines ls) = ls"
proof (induction ls)
  case Nil
  then show ?case by (simp add: lines_of_def unlines_def)
next
  case (Cons l ls)
  then have "lines_acc [] (l @ CHR 0x0A # unlines ls) = l # lines_acc [] (unlines ls)"
    using lines_acc_line [of l "[]" "unlines ls"] by simp
  with Cons show ?case by (simp add: lines_of_def unlines_def)
qed

lemma split_acc_word:
  "\<forall>c\<in>set d. \<not> ifs c \<Longrightarrow> a @ d \<noteq> [] \<Longrightarrow>
   split_acc a (d @ CHR 0x0A # rest) = (a @ d) # split_acc [] rest"
proof (induction d arbitrary: a)
  case Nil
  then show ?case by (simp add: ifs_def)
next
  case (Cons c d)
  then show ?case by simp
qed

lemma word_split_unlines:
  "\<forall>d\<in>set ds. d \<noteq> [] \<and> (\<forall>c\<in>set d. \<not> ifs c) \<Longrightarrow> word_split (unlines ds) = ds"
proof (induction ds)
  case Nil
  then show ?case by (simp add: word_split_def unlines_def)
next
  case (Cons d ds)
  then have "split_acc [] (d @ CHR 0x0A # unlines ds) = d # split_acc [] (unlines ds)"
    using split_acc_word [of d "[]" "unlines ds"] by simp
  with Cons show ?case by (simp add: word_split_def unlines_def)
qed

lemma unquoted_plain:
  assumes "\<forall>d\<in>set ds. d \<noteq> [] \<and> list_all plain_char d"
  shows "unquoted m (unlines ds) = ds"
proof -
  have "\<forall>d\<in>set ds. d \<noteq> [] \<and> (\<forall>c\<in>set d. \<not> ifs c)"
    using assms by (auto simp: list_all_iff plain_char_def)
  then have w: "word_split (unlines ds) = ds" by (rule word_split_unlines)
  have "\<forall>d\<in>set ds. expand_word m d = [d]"
    using assms by (auto simp: expand_word_def has_glob_def list_all_iff list_ex_iff plain_char_def)
  then have "concat (map (expand_word m) ds) = ds"
    by (induction ds) simp_all
  with w show ?thesis by (simp add: unquoted_def)
qed

lemma regex_prefix_literal:
  "CHR ''.'' \<notin> set q \<Longrightarrow> regex_prefix (q @ re) s = Some r \<Longrightarrow> starts_with q s"
  by (induction q s rule: starts_with.induct) (auto split: if_splits)

lemma starts_with_append:
  "c \<notin> set q \<Longrightarrow> starts_with q (x @ c # t) \<Longrightarrow> starts_with q x"
  by (induction q x rule: starts_with.induct) auto

lemma regex_prefix_self: "regex_prefix re re = Some []"
  by (induction re) auto

lemma sed_s_suffix:
  assumes "\<not> contains ''/package'' d"
  shows "sed_s ''/package.json'' (d @ ''/package.json'') = d"
  using assms
proof (induction d)
  case Nil
  then show ?case by simp
next
  case (Cons a d)
  have "regex_prefix ''/package.json'' ((a # d) @ ''/package.json'') = None"
  proof (rule ccontr)
    assume "regex_prefix ''/package.json'' ((a # d) @ ''/package.json'') \<noteq> None"
    then obtain r where "regex_prefix (''/package'' @ ''.json'') ((a # d) @ ''/package.json'') = Some r"
      by auto
    then have "starts_with ''/package'' ((a # d) @ ''/package.json'')"
      by (rule regex_prefix_literal [rotated]) simp
    then have a: "a = CHR ''/'' \<and> starts_with ''package'' (d @ a # ''package.json'')"
      by auto
    then have "a \<notin> set ''package''" by simp
    then have "starts_with ''package'' d" using a by (blast intro: starts_with_append)
    with a have "starts_with ''/package'' (a # d)" by simp
    with Cons.prems show False by simp
  qed
  moreover have "\<not> contains ''/package'' d" using Cons.prems by simp
  ultimately show ?case using Cons.IH by simp
qed

text \<open>Every path that \<^verbatim>\<open>find\<close> visits below its start ends in its base name.\<close>

lemma walk_paths:
  "(p, b, x) \<in> set (walk p0 b0 n) \<Longrightarrow> (p = p0 \<and> b = b0) \<or> (\<exists>q. p = p0 @ q @ ''/'' @ b)"
  "(p, b, x) \<in> set (walk_entries p0 es) \<Longrightarrow> (\<exists>q. p = p0 @ q @ ''/'' @ b)"
proof (induction p0 b0 n and p0 es rule: walk_walk_entries.induct)
  case (5 r n c es)
  from "5.prems" consider
    (here) "(p, b, x) \<in> set (walk (r @ ''/'' @ n) n c)" | (later) "(p, b, x) \<in> set (walk_entries r es)"
    by auto
  then show ?case
  proof cases
    case here
    from "5.IH"(1) [OF here] show ?thesis
    proof
      assume "p = r @ ''/'' @ n \<and> b = n"
      then have "p = r @ [] @ ''/'' @ b" by simp
      then show ?thesis by blast
    next
      assume "\<exists>q. p = (r @ ''/'' @ n) @ q @ ''/'' @ b"
      then obtain q where "p = r @ (''/'' @ n @ q) @ ''/'' @ b" by auto
      then show ?thesis by blast
    qed
  next
    case later
    from "5.IH"(2) [OF later] show ?thesis .
  qed
qed auto


lemma find_manifests_shape:
  assumes "p \<in> set (find_manifests root)"
  shows "\<exists>d. p = d @ ''/package.json'' \<and> d \<noteq> []"
proof -
  from assms obtain n b x where
    "root = Some n" and w: "(p, b, x) \<in> set (walk ''samples'' ''samples'' n)"
    and t: "manifest_test (p, b, x)"
    by (auto simp: find_manifests_def split: option.splits)
  from t have b: "b = ''package.json''"
    using glob_literal [of "''package.json''" b] by (simp add: manifest_test_def)
  from walk_paths(1) [OF w] b obtain q where "p = ''samples'' @ q @ ''/'' @ ''package.json''"
    by auto
  then have "p = (''samples'' @ q) @ ''/package.json'' \<and> ''samples'' @ q \<noteq> []" by simp
  then show ?thesis by blast
qed

text \<open>
  On plain manifest paths line 11 does what its comment says: the samples are the
  directories of the manifests that \<^verbatim>\<open>find\<close> lists, in its order.
\<close>

lemma discover_plain:
  assumes "\<forall>p\<in>set (find_manifests (tree w)). plain_path p"
  shows "discover w = map manifest_dir (find_manifests (tree w))"
proof -
  let ?ps = "find_manifests (tree w)"
  have nl: "\<forall>p\<in>set ?ps. CHR 0x0A \<notin> set p"
    using assms by (auto simp: plain_path_def plain_char_def ifs_def list_all_iff)
  have sed: "\<forall>p\<in>set ?ps. sed_s ''/package.json'' p = manifest_dir p"
  proof
    fix p assume p: "p \<in> set ?ps"
    then obtain d where d: "p = d @ ''/package.json''" using find_manifests_shape by blast
    then have md: "manifest_dir p = d" by (simp add: manifest_dir_def)
    with assms p have "\<not> contains ''/package'' d" by (auto simp: plain_path_def)
    then show "sed_s ''/package.json'' p = manifest_dir p"
      using sed_s_suffix [of d] d md by simp
  qed
  have dirs: "\<forall>d\<in>set (map manifest_dir ?ps). d \<noteq> [] \<and> list_all plain_char d"
  proof
    fix d assume "d \<in> set (map manifest_dir ?ps)"
    then obtain p where p: "p \<in> set ?ps" and dp: "d = manifest_dir p" by auto
    from p obtain d' where d': "p = d' @ ''/package.json''" "d' \<noteq> []"
      using find_manifests_shape by blast
    then have "d = d'" using dp by (simp add: manifest_dir_def)
    moreover have "list_all plain_char p" using assms p by (simp add: plain_path_def)
    ultimately show "d \<noteq> [] \<and> list_all plain_char d" using d' by simp
  qed
  have m: "map (sed_s ''/package.json'') ?ps = map manifest_dir ?ps"
    using sed by simp
  show ?thesis
    unfolding discover_def lines_of_unlines [OF nl] m by (rule unquoted_plain [OF dirs])
qed

text \<open>Discovery evaluated on the example trees.\<close>

lemmas discover_defs =
  discover_def find_manifests_def manifest_test_def is_file_def unlines_def lines_of_def
  unquoted_def word_split_def ifs_def expand_word_def has_glob_def sample_dir_def

lemma discover_one_sample: "tree w = Some one_sample \<Longrightarrow> discover w = [''samples/a'']"
  by (simp add: discover_defs one_sample_def)

lemma discover_two_samples:
  "tree w = Some two_samples \<Longrightarrow> discover w = [''samples/a'', ''samples/b'']"
  by (simp add: discover_defs two_samples_def)


lemma discover_no_tree: "tree w = None \<Longrightarrow> discover w = []"
  by (simp add: discover_defs)

lemma grep_build_listing: "grep_q ''build'' build_listing = 0"
  by (simp add: grep_q_def build_listing_def)

subsection \<open>One sample\<close>

text \<open>
  What the body of the loop does with a sample, by the status of \<^verbatim>\<open>pushd\<close> and
  of the condition of line 43.
\<close>

lemma build_sample_pushd_fails:
  "pushd w d \<noteq> 0 \<Longrightarrow>
   build_sample w d st =
     Inl (pushd w d, say [emoji_rocket @ '' Building: '' @ d,
                          ''----------------------------------------''] st)"
  by (simp add: build_sample_def)

lemma build_sample_success:
  "pushd w d = 0 \<Longrightarrow> fst (attempt w d) = 0 \<Longrightarrow>
   build_sample w d st =
     (let st' = st\<lparr>results := (results st)(d \<mapsto> ''success''),
                    successful := successful st + 1,
                    trace := trace st @ [Echo (emoji_rocket @ '' Building: '' @ d),
                                         Echo ''----------------------------------------'']
                               @ snd (attempt w d)
                               @ [Echo (''  '' @ emoji_check @ '' SUCCESS'')]\<rparr>
      in if successful st = 0 then Inl (1, st') else Inr (say [[]] st'))"
  by (simp add: build_sample_def say_def log_def post_increment_def Let_def case_prod_beta)

lemma build_sample_failure:
  "pushd w d = 0 \<Longrightarrow> fst (attempt w d) \<noteq> 0 \<Longrightarrow>
   build_sample w d st =
     (let st' = st\<lparr>results := (results st)(d \<mapsto> ''failed''),
                    failed := failed st + 1,
                    trace := trace st @ [Echo (emoji_rocket @ '' Building: '' @ d),
                                         Echo ''----------------------------------------'']
                               @ snd (attempt w d)
                               @ [Echo (''  '' @ emoji_cross @ '' FAILED'')]\<rparr>
      in if failed st = 0 then Inl (1, st') else Inr (say [[]] st'))"
  by (simp add: build_sample_def say_def log_def post_increment_def Let_def case_prod_beta)

text \<open>The outcome that is recorded for a sample is the status of the condition.\<close>

lemma build_sample_records:
  "pushd w d = 0 \<Longrightarrow>
   results (last_shell (build_sample w d st)) d =
     Some (if fst (attempt w d) = 0 then ''success'' else ''failed'')"
  by (cases "fst (attempt w d) = 0")
     (simp_all add: build_sample_success build_sample_failure Let_def last_shell_def say_def)

text \<open>A sample only adds to the trace.\<close>

lemma build_sample_trace_extends:
  "\<exists>evs. trace (last_shell (build_sample w d st)) = trace st @ evs"
proof (cases "pushd w d = 0")
  case False
  then show ?thesis by (simp add: build_sample_pushd_fails last_shell_def say_def)
next
  case True
  then show ?thesis
    by (cases "fst (attempt w d) = 0")
       (simp_all add: build_sample_success build_sample_failure Let_def last_shell_def say_def)
qed

subsection \<open>The loop ends the script at its first sample\<close>

text \<open>
  Both counters start at 0, so the first increment, whichever counter it is, has the value
  0 and the status 1, and \<^verbatim>\<open>set -e\<close> ends the script there.
\<close>

lemma build_sample_first_stops:
  assumes "successful st = 0" and "failed st = 0"
  shows "\<exists>rc st'. build_sample w d st = Inl (rc, st') \<and> rc \<noteq> 0"
proof (cases "pushd w d = 0")
  case False
  then show ?thesis by (simp add: build_sample_pushd_fails)
next
  case True
  show ?thesis
  proof (cases "fst (attempt w d) = 0")
    case True
    with \<open>pushd w d = 0\<close> assms show ?thesis by (simp add: build_sample_success Let_def)
  next
    case False
    with \<open>pushd w d = 0\<close> assms show ?thesis by (simp add: build_sample_failure Let_def)
  qed
qed

lemma build_loop_first_stops:
  assumes "successful st = 0" and "failed st = 0"
  shows "build_loop w (d # ds) st = build_sample w d st"
proof -
  obtain rc st' where "build_sample w d st = Inl (rc, st')"
    using build_sample_first_stops [OF assms] by blast
  then show ?thesis by simp
qed

lemma build_samples_loop:
  assumes "discover w = d # ds" and "root_npm_ci w = 0"
  shows "Inl (build_samples w) = build_sample w d (loop_entry w)"
proof -
  have "build_loop w (d # ds) (loop_entry w) = build_sample w d (loop_entry w)"
    by (rule build_loop_first_stops) (simp_all add: loop_entry_def)
  moreover obtain rc st' where "build_sample w d (loop_entry w) = Inl (rc, st')"
    using build_sample_first_stops [of "loop_entry w" w d] by (auto simp: loop_entry_def)
  ultimately show ?thesis using assms
    by (simp add: build_samples_def Let_def say_def log_def loop_entry_def)
qed

text \<open>No run ends with status 0.\<close>

lemma build_samples_never_zero: "fst (build_samples w) \<noteq> 0"
proof (cases "discover w")
  case Nil
  then show ?thesis by (simp add: build_samples_def)
next
  case (Cons d ds)
  show ?thesis
  proof (cases "root_npm_ci w = 0")
    case False
    with Cons show ?thesis by (simp add: build_samples_def Let_def)
  next
    case True
    obtain rc st' where "build_sample w d (loop_entry w) = Inl (rc, st')" and "rc \<noteq> 0"
      using build_sample_first_stops [of "loop_entry w" w d] by (auto simp: loop_entry_def)
    with build_samples_loop [OF Cons True] show ?thesis by auto
  qed
qed

text \<open>No run prints the summary: its heading is not in any trace.\<close>

lemma attempt_echo_indented:
  "Echo l \<in> set (snd (attempt w d)) \<Longrightarrow> take 2 l = ''  ''"
  by (auto simp: attempt_def strategy_chain_def Let_def split: if_splits)

lemma found_banner_no_heading:
  "emoji_chart @ '' BUILD SUMMARY'' \<notin> set (found_banner ds)"
  by (auto simp: found_banner_def)

lemma loop_entry_no_heading:
  "Echo (emoji_chart @ '' BUILD SUMMARY'') \<notin> set (trace (loop_entry w))"
  using found_banner_no_heading [of "discover w"] by (auto simp: loop_entry_def)

lemma build_sample_first_no_heading:
  assumes "successful st = 0" and "failed st = 0"
    and "Echo (emoji_chart @ '' BUILD SUMMARY'') \<notin> set (trace st)"
  shows "Echo (emoji_chart @ '' BUILD SUMMARY'')
           \<notin> set (trace (last_shell (build_sample w d st)))"
proof (cases "pushd w d = 0")
  case False
  with assms(3) show ?thesis
    by (simp add: build_sample_pushd_fails last_shell_def say_def)
next
  case True
  have a: "Echo (emoji_chart @ '' BUILD SUMMARY'') \<notin> set (snd (attempt w d))"
    using attempt_echo_indented [of "emoji_chart @ '' BUILD SUMMARY''" w d] by auto
  show ?thesis
  proof (cases "fst (attempt w d) = 0")
    case True
    with \<open>pushd w d = 0\<close> assms a show ?thesis
      by (simp add: build_sample_success Let_def last_shell_def)
  next
    case False
    with \<open>pushd w d = 0\<close> assms a show ?thesis
      by (simp add: build_sample_failure Let_def last_shell_def)
  qed
qed

lemma build_samples_no_summary:
  "Echo (emoji_chart @ '' BUILD SUMMARY'') \<notin> set (trace (snd (build_samples w)))"
proof (cases "discover w")
  case Nil
  then show ?thesis by (simp add: build_samples_def say_def)
next
  case (Cons d ds)
  show ?thesis
  proof (cases "root_npm_ci w = 0")
    case False
    have "discover w \<noteq> []" using Cons by simp
    with False found_banner_no_heading [of "discover w"] show ?thesis
      by (auto simp: build_samples_def Let_def say_def log_def)
  next
    case True
    have "last_shell (build_sample w d (loop_entry w)) = snd (build_samples w)"
      using build_samples_loop [OF Cons True, symmetric]
      by (simp add: last_shell_def case_prod_beta)
    moreover have "successful (loop_entry w) = 0" and "failed (loop_entry w) = 0"
      by (simp_all add: loop_entry_def)
    then have "Echo (emoji_chart @ '' BUILD SUMMARY'')
                 \<notin> set (trace (last_shell (build_sample w d (loop_entry w))))"
      using loop_entry_no_heading by (rule build_sample_first_no_heading)
    ultimately show ?thesis by simp
  qed
qed

subsection \<open>The loop and the summary, were the increments not to end the script\<close>




lemma report_status: "fst (report st) = (if failed st = 0 then 0 else 1)"
  by (simp add: report_def Let_def)

text \<open>The pattern of \<^verbatim>\<open>sed\<close> is not anchored, and its dot matches any character.\<close>

lemma sed_unanchored:
  "sed_s ''/package.json'' ''samples/packageXjson/package.json'' = ''samples/package.json''"
  by simp

subsection \<open>Evaluating runs\<close>

lemma decimal_small:
  "decimal (Suc 0) = ''1''"
  "decimal (Suc (Suc 0)) = ''2''"
  "decimal (Suc (Suc (Suc 0))) = ''3''"
  by (simp_all add: decimal.simps digit_def)


lemmas run_defs =
  build_samples_def bare_world_def Let_def say_def log_def found_banner_def build_sample_def
  attempt_def strategy_chain_def post_increment_def grep_q_any_def decimal_small
  grep_build_listing

subsection \<open>Claims about the loop and the summary\<close>

text \<open>
  Claim C1 (isolation): a failure of a sample's installation or build is caught and
  recorded as a failure of that sample, and every later sample is still attempted.

  The script does not do this. In the world \<open>first_install_fails\<close> there are two
  samples and \<^verbatim>\<open>npm ci\<close> fails in the first. The failure is caught by the
  \<^verbatim>\<open>if\<close> of line 43 and recorded (\<^verbatim>\<open>FAILED\<close>, \<open>results\<close>), but the
  increment of line 65 then has status 1 and ends the script with status 1: the trace
  stops after the first sample, and \<^verbatim>\<open>samples/b\<close> is never entered, installed
  or built.
\<close>

theorem C1_install_failure_ends_run:
  "build_samples first_install_fails =
     (1, \<lparr>samples = [''samples/a'', ''samples/b''],
          results = [''samples/a'' \<mapsto> ''failed''],
          total_samples = 2, successful = 0, failed = 1,
          trace = [Echo (emoji_magnifier @ '' Discovering samples...''),
                   Echo (emoji_clipboard @ '' Found 2 samples:''),
                   Echo ''  - samples/a'',
                   Echo ''  - samples/b'',
                   Echo [],
                   Echo (emoji_package @ '' Installing root dependencies...''),
                   Invoke ''.'' Npm_ci,
                   Echo (emoji_hammer @ '' Building samples...''),
                   Echo [],
                   Echo (emoji_rocket @ '' Building: samples/a''),
                   Echo ''----------------------------------------'',
                   Invoke ''samples/a'' Npm_ci,
                   Echo (''  '' @ emoji_cross @ '' FAILED'')]\<rparr>)"
proof -
  have "discover first_install_fails = [''samples/a'', ''samples/b'']"
    by (rule discover_two_samples) (simp add: first_install_fails_def bare_world_def)
  then show ?thesis
    by (simp add: first_install_fails_def run_defs)
qed

text \<open>
  Claim C3 (aggregation): the two counters add up to the total, the summary is printed
  before the exit status is decided, and the exit status is 0 exactly when no sample
  failed.

  In the world \<open>one_pass\<close> the only sample has nothing to check and passes. The script
  ends with status 1 although \<open>failed\<close> is 0, and prints no summary. (The summary
  itself would end with the right status, \<open>report_status\<close>; but no run ends with
  status 0, \<open>build_samples_never_zero\<close>, and none prints the summary,
  \<open>build_samples_no_summary\<close>.)
\<close>

theorem C3_all_pass_exits_1:
  "build_samples one_pass =
     (1, \<lparr>samples = [''samples/a''],
          results = [''samples/a'' \<mapsto> ''success''],
          total_samples = 1, successful = 1, failed = 0,
          trace = [Echo (emoji_magnifier @ '' Discovering samples...''),
                   Echo (emoji_clipboard @ '' Found 1 samples:''),
                   Echo ''  - samples/a'',
                   Echo [],
                   Echo (emoji_package @ '' Installing root dependencies...''),
                   Invoke ''.'' Npm_ci,
                   Echo (emoji_hammer @ '' Building samples...''),
                   Echo [],
                   Echo (emoji_rocket @ '' Building: samples/a''),
                   Echo ''----------------------------------------'',
                   Invoke ''samples/a'' Npm_ci,
                   Invoke ''samples/a'' Npm_run,
                   Echo (''  '' @ emoji_magnifier @ '' Checking TypeScript syntax''),
                   Echo (''  '' @ emoji_info @ '' No TypeScript files found''),
                   Echo (''  '' @ emoji_check @ '' SUCCESS'')]\<rparr>)"
proof -
  have "discover one_pass = [''samples/a'']"
    by (rule discover_one_sample) (simp add: one_pass_def bare_world_def)
  then show ?thesis
    by (simp add: one_pass_def run_defs grep_q_def)
qed

subsection \<open>Claims about the summary, when it is reached\<close>





subsection \<open>Claims about discovery\<close>

text \<open>
  Claim C8 (discovery): the samples are exactly the directories that hold a
  \<^verbatim>\<open>package.json\<close> outside \<^verbatim>\<open>node_modules\<close>.

  The substitution of line 11 is not quoted. In the world \<open>spaced_world\<close> the one
  manifest is \<^verbatim>\<open>samples/my app/package.json\<close>; \<^verbatim>\<open>find\<close> prints it, and
  word splitting makes the two samples \<^verbatim>\<open>samples/my\<close> and \<^verbatim>\<open>app\<close> of it,
  neither of which is a directory with a manifest. (On plain paths discovery is as the
  claim says, \<open>discover_plain\<close> and \<open>manifest_test_plain\<close>.)
\<close>

theorem C8_space_splits_the_path:
  "find_manifests (tree spaced_world) = [''samples/my app/package.json'']
   \<and> discover spaced_world = [''samples/my'', ''app'']"
  by (simp add: spaced_world_def bare_world_def spaced_sample_def discover_defs)

text \<open>
  Claim C7 (no samples): when discovery finds no sample, the script prints that it found
  none and ends with status 1; nothing is installed or built and no summary is printed.
  The state and the trace of the whole run are given in full.
\<close>

theorem C7_no_samples:
  assumes "discover w = []"
  shows "build_samples w =
     (1, \<lparr>samples = [], results = Map.empty, total_samples = 0, successful = 0, failed = 0,
          trace = [Echo (emoji_magnifier @ '' Discovering samples...''),
                   Echo (emoji_cross @ '' No samples found!'')]\<rparr>)"
  using assms by (simp add: build_samples_def say_def)

text \<open>Claim C7 at the world without a \<^verbatim>\<open>samples\<close> directory.\<close>

theorem C7_no_samples_witness:
  "discover no_samples = []
   \<and> build_samples no_samples =
     (1, \<lparr>samples = [], results = Map.empty, total_samples = 0, successful = 0, failed = 0,
          trace = [Echo (emoji_magnifier @ '' Discovering samples...''),
                   Echo (emoji_cross @ '' No samples found!'')]\<rparr>)"
proof -
  have d: "discover no_samples = []"
    by (rule discover_no_tree) (simp add: no_samples_def bare_world_def)
  from d C7_no_samples [OF d] show ?thesis by simp
qed

subsection \<open>Claims about one sample\<close>

text \<open>
  Claim C4 (priority), as stated, for every sample: when the manifest declares a build
  command and there is a \<^verbatim>\<open>tsconfig.json\<close>, the build command is run and the type
  check is not; more generally the first applicable of the four checks decides the
  outcome.

  This fails in two ways. In the world \<open>build_and_tsconfig_install_fails\<close> the sample
  has both, and its build would pass, but \<^verbatim>\<open>npm ci\<close> fails: line 43 runs nothing
  else and the sample is recorded as failed. In the world \<open>rebuild_kit_tsconfig\<close> the
  installation succeeds, the manifest declares no build command and the type check would
  pass, so the type check is the first applicable check; but the name of the package has
  \<^verbatim>\<open>build\<close> in it, line 44 finds it in the listing of \<^verbatim>\<open>npm run\<close>, line 46
  runs \<^verbatim>\<open>npm run build\<close>, which fails, and the sample is recorded as failed
  without a type check.
\<close>

theorem C4_priority_fails:
  "(declares_build build_and_tsconfig_install_fails ''samples/a''
    \<and> tsconfig build_and_tsconfig_install_fails ''samples/a''
    \<and> npm_run_build build_and_tsconfig_install_fails ''samples/a'' = 0
    \<and> discover build_and_tsconfig_install_fails = [''samples/a'']
    \<and> attempt build_and_tsconfig_install_fails ''samples/a''
        = (1, [Invoke ''samples/a'' Npm_ci])
    \<and> results (snd (build_samples build_and_tsconfig_install_fails)) ''samples/a''
        = Some ''failed'')
   \<and> (npm_ci rebuild_kit_tsconfig ''samples/a'' = 0
      \<and> \<not> declares_build rebuild_kit_tsconfig ''samples/a''
      \<and> lists_scripts rebuild_kit_tsconfig ''samples/a''
      \<and> tsconfig rebuild_kit_tsconfig ''samples/a''
      \<and> tsc_project rebuild_kit_tsconfig ''samples/a'' = 0
      \<and> discover rebuild_kit_tsconfig = [''samples/a'']
      \<and> attempt rebuild_kit_tsconfig ''samples/a''
          = (1, [Invoke ''samples/a'' Npm_ci, Invoke ''samples/a'' Npm_run,
                 Echo (''  '' @ emoji_memo @ '' Running npm run build''),
                 Invoke ''samples/a'' Npm_run_build])
      \<and> results (snd (build_samples rebuild_kit_tsconfig)) ''samples/a'' = Some ''failed'')"
proof -
  have d1: "discover build_and_tsconfig_install_fails = [''samples/a'']"
    by (rule discover_one_sample)
       (simp add: build_and_tsconfig_install_fails_def bare_world_def)
  have d2: "discover rebuild_kit_tsconfig = [''samples/a'']"
    by (rule discover_one_sample) (simp add: rebuild_kit_tsconfig_def bare_world_def)
  have g: "grep_q ''build'' rebuild_kit_listing = 0"
    by (simp add: grep_q_def rebuild_kit_listing_def)
  have l: "lists_scripts rebuild_kit_tsconfig ''samples/a''"
    by (simp add: lists_scripts_def rebuild_kit_tsconfig_def bare_world_def
          rebuild_kit_listing_def)
  have one: "declares_build build_and_tsconfig_install_fails ''samples/a''
    \<and> tsconfig build_and_tsconfig_install_fails ''samples/a''
    \<and> npm_run_build build_and_tsconfig_install_fails ''samples/a'' = 0
    \<and> attempt build_and_tsconfig_install_fails ''samples/a''
        = (1, [Invoke ''samples/a'' Npm_ci])
    \<and> results (snd (build_samples build_and_tsconfig_install_fails)) ''samples/a''
        = Some ''failed''"
    using d1 by (simp add: build_and_tsconfig_install_fails_def declares_build_def run_defs)
  have two: "npm_ci rebuild_kit_tsconfig ''samples/a'' = 0
      \<and> \<not> declares_build rebuild_kit_tsconfig ''samples/a''
      \<and> tsconfig rebuild_kit_tsconfig ''samples/a''
      \<and> tsc_project rebuild_kit_tsconfig ''samples/a'' = 0
      \<and> attempt rebuild_kit_tsconfig ''samples/a''
          = (1, [Invoke ''samples/a'' Npm_ci, Invoke ''samples/a'' Npm_run,
                 Echo (''  '' @ emoji_memo @ '' Running npm run build''),
                 Invoke ''samples/a'' Npm_run_build])
      \<and> results (snd (build_samples rebuild_kit_tsconfig)) ''samples/a'' = Some ''failed''"
    using d2 g by (simp add: rebuild_kit_tsconfig_def declares_build_def run_defs)
  from one two d1 d2 l show ?thesis by blast
qed

text \<open>
  Claim C4, amended: for every sample that is entered and whose installation succeeds,
  \<^verbatim>\<open>npm run\<close> listing the scripts of its manifest: when the manifest declares a
  build command, \<^verbatim>\<open>npm run build\<close> is the only check that runs, whether there is a
  \<^verbatim>\<open>tsconfig.json\<close> or not, and its status is the outcome; and unless the listing
  has \<^verbatim>\<open>build\<close> in it without a build command in the manifest (a case about which
  nothing is said), the four checks are tried in their order, and the first applicable
  one decides the outcome: the build command if the manifest declares one, else the type
  check if there is a \<^verbatim>\<open>tsconfig.json\<close>, else the lenient check of the TypeScript
  files if there are any, else success.
\<close>

theorem C4_strategy_priority:
  assumes "pushd w d = 0" and "npm_ci w d = 0" and "lists_scripts w d"
  shows "(declares_build w d \<longrightarrow>
            attempt w d =
              (npm_run_build w d,
               [Invoke d Npm_ci, Invoke d Npm_run,
                Echo (''  '' @ emoji_memo @ '' Running npm run build''),
                Invoke d Npm_run_build]))
       \<and> (\<not> stray_build w d \<longrightarrow>
            fst (attempt w d) =
              (if declares_build w d then npm_run_build w d
               else if tsconfig w d then tsc_project w d
               else if grep_q_any (take 1 (find_ts w d)) = 0
                 then tsc_files w d (unquoted (matches w d) (unlines (find_ts w d)))
               else 0)
          \<and> commands (snd (attempt w d)) =
              [Npm_ci, Npm_run] @
              (if declares_build w d then [Npm_run_build]
               else if tsconfig w d then [Npx_tsc_noEmit]
               else if grep_q_any (take 1 (find_ts w d)) = 0
                 then [Npx_tsc_files (unquoted (matches w d) (unlines (find_ts w d)))]
               else []))
       \<and> results (last_shell (build_sample w d st)) d =
            Some (if fst (attempt w d) = 0 then ''success'' else ''failed'')"
proof -
  have listed: "declares_build w d \<Longrightarrow> grep_q ''build'' (npm_run w d) = 0"
    using assms(3) by (auto simp: declares_build_def lists_scripts_def grep_q_def list_all_iff)
  have r: "results (last_shell (build_sample w d st)) d =
          Some (if fst (attempt w d) = 0 then ''success'' else ''failed'')"
    using assms(1) by (rule build_sample_records)
  have b: "declares_build w d \<longrightarrow>
            attempt w d =
              (npm_run_build w d,
               [Invoke d Npm_ci, Invoke d Npm_run,
                Echo (''  '' @ emoji_memo @ '' Running npm run build''),
                Invoke d Npm_run_build])"
    using assms(2) listed by (simp add: attempt_def strategy_chain_def)
  have c: "\<not> stray_build w d \<longrightarrow>
            fst (attempt w d) =
              (if declares_build w d then npm_run_build w d
               else if tsconfig w d then tsc_project w d
               else if grep_q_any (take 1 (find_ts w d)) = 0
                 then tsc_files w d (unquoted (matches w d) (unlines (find_ts w d)))
               else 0)
          \<and> commands (snd (attempt w d)) =
              [Npm_ci, Npm_run] @
              (if declares_build w d then [Npm_run_build]
               else if tsconfig w d then [Npx_tsc_noEmit]
               else if grep_q_any (take 1 (find_ts w d)) = 0
                 then [Npx_tsc_files (unquoted (matches w d) (unlines (find_ts w d)))]
               else [])"
  proof
    assume "\<not> stray_build w d"
    with listed have "(grep_q ''build'' (npm_run w d) = 0) = declares_build w d"
      by (auto simp: stray_build_def)
    then show "fst (attempt w d) =
              (if declares_build w d then npm_run_build w d
               else if tsconfig w d then tsc_project w d
               else if grep_q_any (take 1 (find_ts w d)) = 0
                 then tsc_files w d (unquoted (matches w d) (unlines (find_ts w d)))
               else 0)
          \<and> commands (snd (attempt w d)) =
              [Npm_ci, Npm_run] @
              (if declares_build w d then [Npm_run_build]
               else if tsconfig w d then [Npx_tsc_noEmit]
               else if grep_q_any (take 1 (find_ts w d)) = 0
                 then [Npx_tsc_files (unquoted (matches w d) (unlines (find_ts w d)))]
               else [])"
      using assms(2) by (simp add: attempt_def strategy_chain_def Let_def)
  qed
  from b c r show ?thesis by blast
qed

text \<open>
  The amended claim C4 at a sample whose manifest declares a build command that fails
  with status 2, and that has a \<^verbatim>\<open>tsconfig.json\<close>: the build is run, the type
  check is not, and the sample is recorded as failed.
\<close>

theorem C4_strategy_priority_witness:
  "pushd build_and_tsconfig ''samples/a'' = 0
   \<and> npm_ci build_and_tsconfig ''samples/a'' = 0
   \<and> lists_scripts build_and_tsconfig ''samples/a''
   \<and> declares_build build_and_tsconfig ''samples/a''
   \<and> \<not> stray_build build_and_tsconfig ''samples/a''
   \<and> tsconfig build_and_tsconfig ''samples/a''
   \<and> attempt build_and_tsconfig ''samples/a'' =
       (2, [Invoke ''samples/a'' Npm_ci, Invoke ''samples/a'' Npm_run,
            Echo (''  '' @ emoji_memo @ '' Running npm run build''),
            Invoke ''samples/a'' Npm_run_build])
   \<and> commands (snd (attempt build_and_tsconfig ''samples/a'')) =
       [Npm_ci, Npm_run, Npm_run_build]
   \<and> results (last_shell (build_sample build_and_tsconfig ''samples/a'' fresh)) ''samples/a''
       = Some ''failed''"
proof -
  have p: "pushd build_and_tsconfig ''samples/a'' = 0"
    and i: "npm_ci build_and_tsconfig ''samples/a'' = 0"
    and l: "lists_scripts build_and_tsconfig ''samples/a''"
    and b: "declares_build build_and_tsconfig ''samples/a''"
    and s: "\<not> stray_build build_and_tsconfig ''samples/a''"
    and t: "tsconfig build_and_tsconfig ''samples/a''"
    and v: "npm_run_build build_and_tsconfig ''samples/a'' = 2"
    by (simp_all add: build_and_tsconfig_def bare_world_def lists_scripts_def
          declares_build_def stray_build_def build_listing_def)
  from C4_strategy_priority [OF p i l, of fresh] p i l b s t v show ?thesis by simp
qed

text \<open>
  Claim C5 (installation failure): when \<^verbatim>\<open>npm ci\<close> fails in a sample (which
  the script has entered, to run it there), the sample is recorded as failed and none of
  the checks is run for it: the only process started in the sample is
  \<^verbatim>\<open>npm ci\<close>. (The empty line that closes the sample is
  printed only if the script goes on after the increment of line 65.)
\<close>

theorem C5_install_failure:
  assumes "pushd w d = 0" and "npm_ci w d \<noteq> 0"
  shows "attempt w d = (npm_ci w d, [Invoke d Npm_ci])
       \<and> results (last_shell (build_sample w d st)) d = Some ''failed''
       \<and> trace (last_shell (build_sample w d st)) =
           trace st @ [Echo (emoji_rocket @ '' Building: '' @ d),
                       Echo ''----------------------------------------'',
                       Invoke d Npm_ci,
                       Echo (''  '' @ emoji_cross @ '' FAILED'')]
                    @ (if failed st = 0 then [] else [Echo []])"
proof -
  have a: "attempt w d = (npm_ci w d, [Invoke d Npm_ci])"
    using assms(2) by (simp add: attempt_def)
  then have f: "fst (attempt w d) \<noteq> 0" using assms(2) by simp
  show ?thesis
    using a by (simp add: build_sample_failure [OF assms(1) f] Let_def last_shell_def say_def)
qed

text \<open>Claim C5 at the bare sample whose installation fails.\<close>

theorem C5_install_failure_witness:
  "pushd bare_install_fails ''samples/a'' = 0
   \<and> npm_ci bare_install_fails ''samples/a'' \<noteq> 0
   \<and> attempt bare_install_fails ''samples/a'' = (1, [Invoke ''samples/a'' Npm_ci])
   \<and> results (last_shell (build_sample bare_install_fails ''samples/a'' fresh)) ''samples/a''
       = Some ''failed''
   \<and> trace (last_shell (build_sample bare_install_fails ''samples/a'' fresh)) =
       [Echo (emoji_rocket @ '' Building: samples/a''),
        Echo ''----------------------------------------'',
        Invoke ''samples/a'' Npm_ci,
        Echo (''  '' @ emoji_cross @ '' FAILED'')]"
proof -
  have p: "pushd bare_install_fails ''samples/a'' = 0"
    and i: "npm_ci bare_install_fails ''samples/a'' \<noteq> 0"
    and v: "npm_ci bare_install_fails ''samples/a'' = 1"
    by (simp_all add: bare_install_fails_def bare_world_def)
  from C5_install_failure [OF p i, of fresh] p i v show ?thesis
    by (simp add: fresh_def)
qed

text \<open>
  Claim C6 (nothing to check), as stated, for every sample whose manifest declares no
  build command and that has no \<^verbatim>\<open>tsconfig.json\<close> and no TypeScript file: the
  outcome is success.

  This fails in two ways. In the world \<open>bare_install_fails\<close> the installation of such
  a sample fails, and line 43 records it as failed. In the world \<open>rebuild_kit_bare\<close>
  the installation succeeds, but the name of the package has \<^verbatim>\<open>build\<close> in it:
  line 44 finds it in the listing of \<^verbatim>\<open>npm run\<close>, line 46 runs
  \<^verbatim>\<open>npm run build\<close>, which fails for want of the script, and the sample is
  recorded as failed.
\<close>

theorem C6_nothing_to_check_fails:
  "(\<not> declares_build bare_install_fails ''samples/a''
    \<and> \<not> tsconfig bare_install_fails ''samples/a''
    \<and> find_ts bare_install_fails ''samples/a'' = []
    \<and> discover bare_install_fails = [''samples/a'']
    \<and> results (snd (build_samples bare_install_fails)) ''samples/a'' = Some ''failed'')
   \<and> (npm_ci rebuild_kit_bare ''samples/a'' = 0
      \<and> \<not> declares_build rebuild_kit_bare ''samples/a''
      \<and> lists_scripts rebuild_kit_bare ''samples/a''
      \<and> \<not> tsconfig rebuild_kit_bare ''samples/a''
      \<and> find_ts rebuild_kit_bare ''samples/a'' = []
      \<and> discover rebuild_kit_bare = [''samples/a'']
      \<and> attempt rebuild_kit_bare ''samples/a''
          = (1, [Invoke ''samples/a'' Npm_ci, Invoke ''samples/a'' Npm_run,
                 Echo (''  '' @ emoji_memo @ '' Running npm run build''),
                 Invoke ''samples/a'' Npm_run_build])
      \<and> results (snd (build_samples rebuild_kit_bare)) ''samples/a'' = Some ''failed'')"
proof -
  have d1: "discover bare_install_fails = [''samples/a'']"
    by (rule discover_one_sample) (simp add: bare_install_fails_def bare_world_def)
  have d2: "discover rebuild_kit_bare = [''samples/a'']"
    by (rule discover_one_sample) (simp add: rebuild_kit_bare_def bare_world_def)
  have g: "grep_q ''build'' rebuild_kit_listing = 0"
    by (simp add: grep_q_def rebuild_kit_listing_def)
  have l: "lists_scripts rebuild_kit_bare ''samples/a''"
    by (simp add: lists_scripts_def rebuild_kit_bare_def bare_world_def
          rebuild_kit_listing_def)
  have one: "\<not> declares_build bare_install_fails ''samples/a''
    \<and> \<not> tsconfig bare_install_fails ''samples/a''
    \<and> find_ts bare_install_fails ''samples/a'' = []
    \<and> results (snd (build_samples bare_install_fails)) ''samples/a'' = Some ''failed''"
    using d1 by (simp add: bare_install_fails_def declares_build_def run_defs)
  have two: "npm_ci rebuild_kit_bare ''samples/a'' = 0
      \<and> \<not> declares_build rebuild_kit_bare ''samples/a''
      \<and> \<not> tsconfig rebuild_kit_bare ''samples/a''
      \<and> find_ts rebuild_kit_bare ''samples/a'' = []
      \<and> attempt rebuild_kit_bare ''samples/a''
          = (1, [Invoke ''samples/a'' Npm_ci, Invoke ''samples/a'' Npm_run,
                 Echo (''  '' @ emoji_memo @ '' Running npm run build''),
                 Invoke ''samples/a'' Npm_run_build])
      \<and> results (snd (build_samples rebuild_kit_bare)) ''samples/a'' = Some ''failed''"
    using d2 g by (simp add: rebuild_kit_bare_def declares_build_def run_defs)
  from one two d1 d2 l show ?thesis by blast
qed

text \<open>
  Claim C6, amended: a sample that is entered, whose installation succeeds, whose
  manifest declares no build command, and that has no \<^verbatim>\<open>tsconfig.json\<close> and no
  TypeScript file, is recorded as a success, with the note that no TypeScript files were
  found, unless the listing of \<^verbatim>\<open>npm run\<close> has \<^verbatim>\<open>build\<close> in it all the
  same (a case about which nothing is said).
\<close>

theorem C6_nothing_to_check:
  assumes "pushd w d = 0" and "npm_ci w d = 0"
    and "\<not> declares_build w d" and "\<not> stray_build w d"
    and "\<not> tsconfig w d" and "find_ts w d = []"
  shows "attempt w d =
           (0, [Invoke d Npm_ci, Invoke d Npm_run,
                Echo (''  '' @ emoji_magnifier @ '' Checking TypeScript syntax''),
                Echo (''  '' @ emoji_info @ '' No TypeScript files found'')])
       \<and> results (last_shell (build_sample w d st)) d = Some ''success''"
proof -
  have "grep_q ''build'' (npm_run w d) \<noteq> 0"
    using assms(3,4) by (simp add: stray_build_def)
  then have a: "attempt w d =
           (0, [Invoke d Npm_ci, Invoke d Npm_run,
                Echo (''  '' @ emoji_magnifier @ '' Checking TypeScript syntax''),
                Echo (''  '' @ emoji_info @ '' No TypeScript files found'')])"
    using assms(2,5,6) by (simp add: attempt_def strategy_chain_def grep_q_any_def)
  then have "fst (attempt w d) = 0" by simp
  with build_sample_records [OF assms(1), of st] a show ?thesis by simp
qed

text \<open>The amended claim C6 at the bare sample of the world \<open>one_pass\<close>.\<close>

theorem C6_nothing_to_check_witness:
  "pushd one_pass ''samples/a'' = 0
   \<and> npm_ci one_pass ''samples/a'' = 0
   \<and> \<not> declares_build one_pass ''samples/a''
   \<and> \<not> stray_build one_pass ''samples/a''
   \<and> \<not> tsconfig one_pass ''samples/a''
   \<and> find_ts one_pass ''samples/a'' = []
   \<and> attempt one_pass ''samples/a'' =
       (0, [Invoke ''samples/a'' Npm_ci, Invoke ''samples/a'' Npm_run,
            Echo (''  '' @ emoji_magnifier @ '' Checking TypeScript syntax''),
            Echo (''  '' @ emoji_info @ '' No TypeScript files found'')])
   \<and> results (last_shell (build_sample one_pass ''samples/a'' fresh)) ''samples/a''
       = Some ''success''"
proof -
  have p: "pushd one_pass ''samples/a'' = 0"
    and i: "npm_ci one_pass ''samples/a'' = 0"
    and b: "\<not> declares_build one_pass ''samples/a''"
    and s: "\<not> stray_build one_pass ''samples/a''"
    and t: "\<not> tsconfig one_pass ''samples/a''"
    and f: "find_ts one_pass ''samples/a'' = []"
    by (simp_all add: one_pass_def bare_world_def declares_build_def stray_build_def grep_q_def)
  from C6_nothing_to_check [OF p i b s t f, of fresh] p i b s t f show ?thesis by simp
qed

subsection \<open>The root installation\<close>

text \<open>
  Claim C10 (root installation): when there are samples, the trace of every run starts
  with the banner and the root \<^verbatim>\<open>npm ci\<close>, so whatever is done for a sample
  comes after it; and when the root \<^verbatim>\<open>npm ci\<close> fails, the script ends there
  with the status of \<^verbatim>\<open>npm ci\<close>, which is not 0: no sample is attempted and no
  summary is printed.
\<close>

theorem C10_root_install_first:
  assumes "discover w \<noteq> []"
  shows "(\<exists>rest. trace (snd (build_samples w)) =
            Echo (emoji_magnifier @ '' Discovering samples...'')
            # map Echo (found_banner (discover w)) @ Invoke ''.'' Npm_ci # rest)
       \<and> (root_npm_ci w \<noteq> 0 \<longrightarrow>
            build_samples w =
              (root_npm_ci w,
               \<lparr>samples = discover w, results = Map.empty, total_samples = 0,
                successful = 0, failed = 0,
                trace = Echo (emoji_magnifier @ '' Discovering samples...'')
                        # map Echo (found_banner (discover w)) @ [Invoke ''.'' Npm_ci]\<rparr>))"
proof (cases "root_npm_ci w = 0")
  case False
  with assms show ?thesis by (simp add: build_samples_def Let_def say_def log_def)
next
  case True
  obtain d ds where dd: "discover w = d # ds" using assms by (cases "discover w") auto
  obtain evs where "trace (last_shell (build_sample w d (loop_entry w))) = trace (loop_entry w) @ evs"
    using build_sample_trace_extends by blast
  moreover have "last_shell (build_sample w d (loop_entry w)) = snd (build_samples w)"
    using build_samples_loop [OF dd True, symmetric] by (simp add: last_shell_def case_prod_beta)
  ultimately have "trace (snd (build_samples w)) = trace (loop_entry w) @ evs" by simp
  with True show ?thesis by (simp add: loop_entry_def)
qed

text \<open>Claim C10 at a world with one sample whose root installation fails.\<close>

theorem C10_root_install_first_witness:
  "discover root_install_fails \<noteq> []
   \<and> root_npm_ci root_install_fails \<noteq> 0
   \<and> build_samples root_install_fails =
       (1, \<lparr>samples = [''samples/a''], results = Map.empty, total_samples = 0,
            successful = 0, failed = 0,
            trace = [Echo (emoji_magnifier @ '' Discovering samples...''),
                     Echo (emoji_clipboard @ '' Found 1 samples:''),
                     Echo ''  - samples/a'',
                     Echo [],
                     Echo (emoji_package @ '' Installing root dependencies...''),
                     Invoke ''.'' Npm_ci]\<rparr>)"
proof -
  have d: "discover root_install_fails = [''samples/a'']"
    by (rule discover_one_sample) (simp add: root_install_fails_def bare_world_def)
  then have ne: "discover root_install_fails \<noteq> []" by simp
  have r: "root_npm_ci root_install_fails = 1"
    by (simp add: root_install_fails_def bare_world_def)
  from C10_root_install_first [OF ne] d r show ?thesis
    by (simp add: found_banner_def decimal_small)
qed

end
